theory Spec2Isabelle
  imports Complex_Main "HOL-Library.Sublist"
begin

section \<open>JavaScript values used by the handlers of server.js\<close>

text \<open>
  The handlers of \<^verbatim>\<open>src/server.js\<close> hand JavaScript objects to \<^verbatim>\<open>res.json\<close> and to the
  Supabase client, and read rows the client returns. Both directions are JSON documents, so
  objects are written here as the JSON documents they are sent as. A string is a list of
  bytes (UTF-8); the Portuguese messages of the source are spelled with their bytes.
\<close>

datatype json =
    JNull
  | JBool bool
  | JNumber rat
  | JString string
  | JArray "json list"
  | JObject "(string \<times> json) list"

text \<open>
  A JavaScript number as the global function \<^verbatim>\<open>parseFloat\<close> returns it: \<^verbatim>\<open>NaN\<close>, an
  infinity (the flag is its sign, \<open>True\<close> for negative) or a finite number, given by its
  value. \<^verbatim>\<open>parseFloat\<close> itself belongs to the language, not to the repository: the
  handler that calls it takes it as a parameter, and what is proved holds for whatever it
  returns.
\<close>

datatype jsnum = NaN | Infinity bool | Finite rat

text \<open>
  \<^verbatim>\<open>JSON.stringify\<close> writes a finite number as a number and \<^verbatim>\<open>NaN\<close>, \<^verbatim>\<open>Infinity\<close>
  and \<^verbatim>\<open>-Infinity\<close> as \<^verbatim>\<open>null\<close>: this is the value a number has in the body of a
  response and in the row sent to the store.
\<close>

fun json_number :: "jsnum \<Rightarrow> json" where
  "json_number NaN = JNull"
| "json_number (Infinity _) = JNull"
| "json_number (Finite q) = JNumber q"

text \<open>Truthiness (\<^verbatim>\<open>ToBoolean\<close>) of a value read from a JSON document.\<close>

fun truthy :: "json \<Rightarrow> bool" where
  "truthy JNull = False"
| "truthy (JBool b) = b"
| "truthy (JNumber q) = (q \<noteq> 0)"
| "truthy (JString s) = (s \<noteq> [])"
| "truthy (JArray _) = True"
| "truthy (JObject _) = True"

text \<open>\<^verbatim>\<open>a || b\<close> on such values.\<close>

definition js_or :: "json \<Rightarrow> json \<Rightarrow> json" where
  "js_or a b = (if truthy a then a else b)"

text \<open>
  A text field of a multipart body, or the original name of an uploaded file, is a string or
  \<^verbatim>\<open>undefined\<close> (\<open>None\<close>). It is truthy when it is a non-empty string.
\<close>

definition truthy_field :: "string option \<Rightarrow> bool" where
  "truthy_field v = (case v of None \<Rightarrow> False | Some s \<Rightarrow> s \<noteq> [])"

text \<open>
  A field as it is sent inside a JSON document: \<^verbatim>\<open>field || null\<close>. This is also what a field
  known to be truthy is sent as, the string itself.
\<close>

definition field_or_null :: "string option \<Rightarrow> json" where
  "field_or_null v = (case v of None \<Rightarrow> JNull | Some s \<Rightarrow> if s \<noteq> [] then JString s else JNull)"

subsection \<open>Template literals\<close>

text \<open>
  \<^verbatim>\<open>${Date.now()}\<close>: the decimal digits of a non-negative integer (a millisecond timestamp
  is far below \<open>10^21\<close>, where JavaScript would switch to exponent notation).
\<close>

definition digit_char :: "nat \<Rightarrow> char" where
  "digit_char d = ''0123456789'' ! d"

function show_nat :: "nat \<Rightarrow> string" where
  "show_nat n = (if n < 10 then [digit_char n] else show_nat (n div 10) @ [digit_char (n mod 10)])"
  by pat_completeness auto
termination
  by (relation "measure id") auto

declare show_nat.simps [simp del]

section \<open>Errors, replies of the Supabase client, the local file system\<close>

text \<open>
  An error object: \<^verbatim>\<open>error.message\<close> and \<^verbatim>\<open>error.code\<close> (\<open>None\<close> when the object has
  no code).
\<close>

record js_error =
  message :: string
  code :: "string option"

text \<open>
  An awaited call of the client resolves to \<^verbatim>\<open>{ data, error }\<close>, with data and no error or
  with an error and no data, or it rejects, which throws at the \<^verbatim>\<open>await\<close>.
\<close>

datatype 'a reply = Resolved_data 'a | Resolved_error js_error | Rejected js_error

text \<open>
  A row of the table \<^verbatim>\<open>images\<close>. The stored reference \<^verbatim>\<open>url\<close> is a string, as the handlers
  call \<^verbatim>\<open>startsWith\<close> on it; the other columns are read as JSON values.
\<close>

record image_row =
  image_id :: json
  image_url :: string
  image_user_id :: json
  image_created_at :: json
  image_latitude :: json
  image_longitude :: json
  image_analysis :: json

text \<open>The options object of \<^verbatim>\<open>storage.from(bucket).upload\<close>.\<close>

record upload_options =
  cacheControl :: string
  upsert :: bool
  contentType :: string

type_synonym buffer = string

text \<open>
  The calls the handlers make on the global \<^verbatim>\<open>supabase\<close> client, one field for each chain of
  the source. \<open>'w\<close> is the state of whatever is behind the client; a call reads it and may
  change it. \<^verbatim>\<open>getPublicUrl\<close> is synchronous and only builds a string.

  \<^item> \<open>images_select_all\<close>: \<^verbatim>\<open>from('images').select('*').order('created_at', {ascending: false})\<close>
  \<^item> \<open>images_insert row\<close>: \<^verbatim>\<open>from('images').insert([row]).select()\<close>
  \<^item> \<open>images_select_url id\<close>: \<^verbatim>\<open>from('images').select('url').eq('id', id).single()\<close>;
    the data is the \<^verbatim>\<open>url\<close> of the row, or \<open>None\<close> for \<^verbatim>\<open>null\<close>
  \<^item> \<open>images_delete id\<close>: \<^verbatim>\<open>from('images').delete().eq('id', id)\<close>
  \<^item> \<open>metadata_delete p\<close>: \<^verbatim>\<open>from('images_metadata').delete().eq('file_path', p)\<close>
  \<^item> \<open>users_select_id uid\<close>: \<^verbatim>\<open>from('users').select('id').eq('firebase_id', uid).single()\<close>;
    the data is the row as a JSON value
  \<^item> \<open>users_update uid v\<close>: \<^verbatim>\<open>from('users').update(v).eq('firebase_id', uid).select()\<close>
  \<^item> \<open>users_insert row\<close>: \<^verbatim>\<open>from('users').insert([row]).select()\<close>
  \<^item> \<open>users_select_profile uid\<close>:
    \<^verbatim>\<open>from('users').select('profile_image_url').eq('firebase_id', uid).single()\<close>; the data is
    the \<^verbatim>\<open>profile_image_url\<close> of the row, \<open>None\<close> when the column is \<^verbatim>\<open>null\<close>
  \<^item> \<open>storage_upload bucket key bytes options\<close>, \<open>storage_getPublicUrl bucket key\<close>,
    \<open>storage_createSignedUrl bucket key seconds\<close>, \<open>storage_remove bucket keys\<close>:
    the calls on \<^verbatim>\<open>supabase.storage.from(bucket)\<close>.
\<close>

record 'w client =
  images_select_all :: "'w \<Rightarrow> image_row list reply \<times> 'w"
  images_insert :: "json \<Rightarrow> 'w \<Rightarrow> image_row list reply \<times> 'w"
  images_select_url :: "string \<Rightarrow> 'w \<Rightarrow> string option reply \<times> 'w"
  images_delete :: "string \<Rightarrow> 'w \<Rightarrow> unit reply \<times> 'w"
  metadata_delete :: "string \<Rightarrow> 'w \<Rightarrow> unit reply \<times> 'w"
  users_select_id :: "string \<Rightarrow> 'w \<Rightarrow> json reply \<times> 'w"
  users_update :: "string \<Rightarrow> json \<Rightarrow> 'w \<Rightarrow> unit reply \<times> 'w"
  users_insert :: "json \<Rightarrow> 'w \<Rightarrow> unit reply \<times> 'w"
  users_select_profile :: "string \<Rightarrow> 'w \<Rightarrow> string option reply \<times> 'w"
  storage_upload :: "string \<Rightarrow> string \<Rightarrow> buffer \<Rightarrow> upload_options \<Rightarrow> 'w \<Rightarrow> unit reply \<times> 'w"
  storage_getPublicUrl :: "string \<Rightarrow> string \<Rightarrow> string"
  storage_createSignedUrl :: "string \<Rightarrow> string \<Rightarrow> nat \<Rightarrow> 'w \<Rightarrow> string reply \<times> 'w"
  storage_remove :: "string \<Rightarrow> string list \<Rightarrow> 'w \<Rightarrow> unit reply \<times> 'w"

text \<open>The asynchronous calls, as the handlers issue them, for the record of what was asked.\<close>

datatype call =
    ImagesSelectAll
  | ImagesInsert json
  | ImagesSelectUrl string
  | ImagesDelete string
  | MetadataDelete string
  | UsersSelectId string
  | UsersUpdate string json
  | UsersInsert json
  | UsersSelectProfile string
  | StorageUpload string string buffer upload_options
  | StorageCreateSignedUrl string string nat
  | StorageRemove string "string list"

text \<open>
  A line written by \<^verbatim>\<open>console.error\<close> or \<^verbatim>\<open>console.warn\<close>: its arguments in order, the
  pieces of a template literal included. What \<^verbatim>\<open>console.log\<close> prints is not kept.
\<close>

datatype console_arg = Text string | Value json | Err js_error

text \<open>
  What a handler can touch: the state behind the client, the local files (path to content),
  the calls made so far and the lines written to the error console.
\<close>

record 'w sys =
  world :: 'w
  files :: "string \<rightharpoonup> buffer"
  calls :: "call list"
  stderr :: "console_arg list list"

definition console_error :: "console_arg list \<Rightarrow> 'w sys \<Rightarrow> 'w sys" where
  "console_error line s = s\<lparr>stderr := stderr s @ [line]\<rparr>"

text \<open>One call: the client answers from the state and the call is recorded.\<close>

definition ask :: "call \<Rightarrow> ('w \<Rightarrow> 'a reply \<times> 'w) \<Rightarrow> 'w sys \<Rightarrow> 'a reply \<times> 'w sys" where
  "ask cl f s = (case f (world s) of (r, w) \<Rightarrow> (r, s\<lparr>world := w, calls := calls s @ [cl]\<rparr>))"

text \<open>\<^verbatim>\<open>const { data, error } = await ...; if (error) throw error;\<close>\<close>

definition throw_on_error :: "'a reply \<times> 's \<Rightarrow> (js_error + 'a) \<times> 's" where
  "throw_on_error r =
     (case r of
        (Resolved_data d, s) \<Rightarrow> (Inr d, s)
      | (Resolved_error e, s) \<Rightarrow> (Inl e, s)
      | (Rejected e, s) \<Rightarrow> (Inl e, s))"

subsection \<open>fs\<close>

definition enoent :: "string \<Rightarrow> string \<Rightarrow> js_error" where
  "enoent syscall p =
     \<lparr>message = ''ENOENT: no such file or directory, '' @ syscall @ '' '' @ [CHR 0x27] @ p @ [CHR 0x27],
      code = Some ''ENOENT''\<rparr>"

definition existsSync :: "string \<Rightarrow> 'w sys \<Rightarrow> bool" where
  "existsSync p s = (files s p \<noteq> None)"

definition readFileSync :: "string \<Rightarrow> 'w sys \<Rightarrow> js_error + buffer" where
  "readFileSync p s = (case files s p of None \<Rightarrow> Inl (enoent ''open'' p) | Some b \<Rightarrow> Inr b)"

definition unlinkSync :: "string \<Rightarrow> 'w sys \<Rightarrow> js_error + 'w sys" where
  "unlinkSync p s =
     (case files s p of
        None \<Rightarrow> Inl (enoent ''unlink'' p)
      | Some _ \<Rightarrow> Inr (s\<lparr>files := (files s)(p := None)\<rparr>))"

subsection \<open>Requests and responses\<close>

text \<open>\<^verbatim>\<open>req.file\<close> as multer's \<^verbatim>\<open>upload.single('image')\<close> leaves it, after storing the upload
  at \<open>path\<close>.\<close>

record uploaded_file =
  path :: string
  originalname :: "string option"
  mimetype :: string

text \<open>A multipart request: \<^verbatim>\<open>req.file\<close> (\<open>None\<close> without a file part) and the text fields
  \<^verbatim>\<open>req.body\<close>.\<close>

record request =
  req_file :: "uploaded_file option"
  req_body :: "string \<rightharpoonup> string"

text \<open>\<^verbatim>\<open>Date.now()\<close> and \<^verbatim>\<open>new Date().toISOString()\<close> as read during one request.\<close>

record clock =
  date_now :: nat
  toISOString :: string

text \<open>\<^verbatim>\<open>res.status(n).json(v)\<close>\<close>

record response =
  status :: nat
  sent :: json

definition res_json :: "nat \<Rightarrow> json \<Rightarrow> response" where
  "res_json n v = \<lparr>status = n, sent = v\<rparr>"

text \<open>The messages of the source that are not ASCII, in UTF-8.\<close>

definition user_id_obrigatorio :: string where
  "user_id_obrigatorio = ''user_id '' @ [CHR 0xC3, CHR 0xA9] @ '' obrigat'' @ [CHR 0xC3, CHR 0xB3] @ ''rio''"

definition imagem_nao_encontrada :: string where
  "imagem_nao_encontrada = ''Imagem n'' @ [CHR 0xC3, CHR 0xA3] @ ''o encontrada''"

definition usuario_nao_encontrado :: string where
  "usuario_nao_encontrado =
     ''Usu'' @ [CHR 0xC3, CHR 0xA1] @ ''rio n'' @ [CHR 0xC3, CHR 0xA3] @ ''o encontrado''"

definition imagem_de_perfil_nao_encontrada :: string where
  "imagem_de_perfil_nao_encontrada = ''Imagem de perfil n'' @ [CHR 0xC3, CHR 0xA3] @ ''o encontrada''"

text \<open>Reading a property of \<^verbatim>\<open>undefined\<close>, as \<^verbatim>\<open>insertData[0].id\<close> on an empty array.\<close>

definition type_error :: "string \<Rightarrow> js_error" where
  "type_error prop =
     \<lparr>message = ''Cannot read properties of undefined (reading '' @ [CHR 0x27] @ prop @ [CHR 0x27] @ '')'',
      code = None\<rparr>"

section \<open>The handlers\<close>

subsection \<open>GET /images\<close>

text \<open>The object returned for one image, with the URL that was resolved for it.\<close>

definition image_view :: "image_row \<Rightarrow> string \<Rightarrow> json" where
  "image_view img u =
     JObject [(''id'', image_id img),
              (''url'', JString u),
              (''user_id'', image_user_id img),
              (''created_at'', image_created_at img),
              (''latitude'', js_or (image_latitude img) JNull),
              (''longitude'', js_or (image_longitude img) JNull),
              (''analysis'', js_or (image_analysis img) JNull)]"

text \<open>The callback of \<^verbatim>\<open>images.map\<close>; \<open>Inl\<close> is a rejected promise.\<close>

definition image_callback :: "'w client \<Rightarrow> image_row \<Rightarrow> 'w sys \<Rightarrow> (js_error + json) \<times> 'w sys" where
  "image_callback c img s =
     (if prefix ''http'' (image_url img)
      then (Inr (image_view img (image_url img)), s)
      else
        (case ask (StorageCreateSignedUrl ''imagens'' (image_url img) 3600)
                  (storage_createSignedUrl c ''imagens'' (image_url img) 3600) s of
           (Rejected e, s1) \<Rightarrow> (Inl e, s1)
         | (Resolved_error urlError, s1) \<Rightarrow>
             (Inr (image_view img (storage_getPublicUrl c ''imagens'' (image_url img))),
              console_error [Text ''Erro ao gerar URL para imagem '', Value (image_id img),
                             Text '':'', Err urlError] s1)
         | (Resolved_data signedUrl, s1) \<Rightarrow> (Inr (image_view img signedUrl), s1)))"

text \<open>
  \<^verbatim>\<open>images.map(async ...)\<close> starts the callbacks in the order of the list, so the requests
  for signed URLs are issued in that order; the replies are taken in that order too.
\<close>

fun map_callbacks :: "'w client \<Rightarrow> image_row list \<Rightarrow> 'w sys \<Rightarrow> (js_error + json) list \<times> 'w sys" where
  "map_callbacks c [] s = ([], s)"
| "map_callbacks c (img # images) s =
     (case image_callback c img s of
        (r, s1) \<Rightarrow> (case map_callbacks c images s1 of (rs, s2) \<Rightarrow> (r # rs, s2)))"

text \<open>\<^verbatim>\<open>Promise.all\<close>: the values in order, or the rejection (the first of the list here).\<close>

fun promise_all :: "('e + 'a) list \<Rightarrow> 'e + 'a list" where
  "promise_all [] = Inr []"
| "promise_all (Inl e # rs) = Inl e"
| "promise_all (Inr x # rs) = (case promise_all rs of Inl e \<Rightarrow> Inl e | Inr xs \<Rightarrow> Inr (x # xs))"

definition images_try :: "'w client \<Rightarrow> 'w sys \<Rightarrow> (js_error + response) \<times> 'w sys" where
  "images_try c s =
     (case throw_on_error (ask ImagesSelectAll (images_select_all c) s) of
        (Inl e, s1) \<Rightarrow> (Inl e, s1)
      | (Inr images, s1) \<Rightarrow>
          (case map_callbacks c images s1 of
             (rs, s2) \<Rightarrow>
               (case promise_all rs of
                  Inl e \<Rightarrow> (Inl e, s2)
                | Inr imagesWithUrls \<Rightarrow> (Inr (res_json 200 (JArray imagesWithUrls)), s2))))"

definition images_handler :: "'w client \<Rightarrow> 'w sys \<Rightarrow> response \<times> 'w sys" where
  "images_handler c s =
     (case images_try c s of
        (Inr r, s1) \<Rightarrow> (r, s1)
      | (Inl e, s1) \<Rightarrow>
          (res_json 500 (JObject [(''error'', JString ''Erro ao buscar imagens''),
                                  (''details'', JString (message e))]),
           console_error [Text ''Erro ao buscar imagens:'', Err e] s1))"

subsection \<open>POST /upload\<close>

text \<open>\<^verbatim>\<open>field ? parseFloat(field) : null\<close> as it is sent.\<close>

definition parsed_or_null :: "(string \<Rightarrow> jsnum) \<Rightarrow> string option \<Rightarrow> json" where
  "parsed_or_null parseFloat v =
     (case v of
        None \<Rightarrow> JNull
      | Some s \<Rightarrow> if s \<noteq> [] then json_number (parseFloat s) else JNull)"

text \<open>\<^verbatim>\<open>req.file.originalname || 'image.jpg'\<close>\<close>

definition name_or_default :: "string option \<Rightarrow> string" where
  "name_or_default v = (case v of None \<Rightarrow> ''image.jpg'' | Some n \<Rightarrow> if n \<noteq> [] then n else ''image.jpg'')"

text \<open>
  The \<^verbatim>\<open>catch\<close> block of both upload handlers. \<^verbatim>\<open>unlinkSync\<close> follows a successful
  \<^verbatim>\<open>existsSync\<close> of the same path, so it removes the file.
\<close>

definition upload_catch :: "string \<Rightarrow> string \<Rightarrow> request \<Rightarrow> js_error \<Rightarrow> 'w sys \<Rightarrow> response \<times> 'w sys" where
  "upload_catch label generic req e s =
     (let s1 = console_error [Text label, Err e] s;
          s2 = (case req_file req of
                  None \<Rightarrow> s1
                | Some f \<Rightarrow>
                    if existsSync (path f) s1
                    then (case unlinkSync (path f) s1 of Inr s' \<Rightarrow> s' | Inl _ \<Rightarrow> s1)
                    else s1)
      in (res_json 500 (JObject [(''error'', JString generic), (''details'', JString (message e))]), s2))"

definition upload_try ::
  "(string \<Rightarrow> jsnum) \<Rightarrow> 'w client \<Rightarrow> clock \<Rightarrow> request \<Rightarrow> 'w sys \<Rightarrow> (js_error + response) \<times> 'w sys" where
  "upload_try parseFloat c clk req s =
     (let latitude = req_body req ''latitude'';
          longitude = req_body req ''longitude'';
          analysis = req_body req ''analysis''
      in case req_file req of
        None \<Rightarrow> (Inr (res_json 400 (JObject [(''error'', JString ''Nenhuma imagem enviada'')])), s)
      | Some f \<Rightarrow>
          if \<not> truthy_field (req_body req ''user_id'')
          then (Inr (res_json 400 (JObject [(''error'', JString user_id_obrigatorio)])), s)
          else
            (case readFileSync (path f) s of
               Inl e \<Rightarrow> (Inl e, s)
             | Inr fileBuffer \<Rightarrow>
                 let fileName = show_nat (date_now clk) @ ''_'' @ name_or_default (originalname f);
                     filePath = ''images/'' @ fileName
                 in case throw_on_error
                           (ask (StorageUpload ''imagens'' filePath fileBuffer
                                   \<lparr>cacheControl = ''3600'', upsert = False, contentType = mimetype f\<rparr>)
                                (storage_upload c ''imagens'' filePath fileBuffer
                                   \<lparr>cacheControl = ''3600'', upsert = False, contentType = mimetype f\<rparr>) s) of
                      (Inl e, s1) \<Rightarrow> (Inl e, s1)
                    | (Inr _, s1) \<Rightarrow>
                        let publicUrl = storage_getPublicUrl c ''imagens'' filePath;
                            row = JArray [JObject [(''user_id'', field_or_null (req_body req ''user_id'')),
                                                   (''url'', JString filePath),
                                                   (''latitude'', parsed_or_null parseFloat latitude),
                                                   (''longitude'', parsed_or_null parseFloat longitude),
                                                   (''analysis'', field_or_null analysis),
                                                   (''created_at'', JString (toISOString clk))]]
                        in case throw_on_error (ask (ImagesInsert row) (images_insert c row) s1) of
                             (Inl e, s2) \<Rightarrow> (Inl e, s2)
                           | (Inr insertData, s2) \<Rightarrow>
                               (case unlinkSync (path f) s2 of
                                  Inl e \<Rightarrow> (Inl e, s2)
                                | Inr s3 \<Rightarrow>
                                    (case insertData of
                                       [] \<Rightarrow> (Inl (type_error ''id''), s3)
                                     | first # _ \<Rightarrow>
                                         (Inr (res_json 200
                                                 (JObject [(''message'', JString ''Upload realizado com sucesso!''),
                                                           (''imageId'', image_id first),
                                                           (''imageUrl'', JString publicUrl),
                                                           (''latitude'', parsed_or_null parseFloat latitude),
                                                           (''longitude'', parsed_or_null parseFloat longitude),
                                                           (''analysis'', field_or_null analysis)])),
                                          s3)))))"

definition upload_handler ::
  "(string \<Rightarrow> jsnum) \<Rightarrow> 'w client \<Rightarrow> clock \<Rightarrow> request \<Rightarrow> 'w sys \<Rightarrow> response \<times> 'w sys" where
  "upload_handler parseFloat c clk req s =
     (case upload_try parseFloat c clk req s of
        (Inr r, s1) \<Rightarrow> (r, s1)
      | (Inl e, s1) \<Rightarrow> upload_catch ''Erro no upload:'' ''Erro ao fazer upload da imagem'' req e s1)"

subsection \<open>DELETE /images/:id\<close>

definition delete_try :: "'w client \<Rightarrow> string \<Rightarrow> 'w sys \<Rightarrow> (js_error + response) \<times> 'w sys" where
  "delete_try c id' s =
     (case ask (ImagesSelectUrl id') (images_select_url c id') s of
        (Rejected e, s1) \<Rightarrow> (Inl e, s1)
      | (Resolved_error fetchError, s1) \<Rightarrow>
          (Inr (res_json 404 (JObject [(''error'', JString imagem_nao_encontrada)])), s1)
      | (Resolved_data None, s1) \<Rightarrow>
          (Inr (res_json 404 (JObject [(''error'', JString imagem_nao_encontrada)])), s1)
      | (Resolved_data (Some url), s1) \<Rightarrow>
          (case ask (StorageRemove ''imagens'' [url]) (storage_remove c ''imagens'' [url]) s1 of
             (Rejected e, s2) \<Rightarrow> (Inl e, s2)
           | (removed, s2) \<Rightarrow>
               let s2' = (case removed of
                            Resolved_error deleteStorageError \<Rightarrow>
                              console_error [Text ''Erro ao deletar do storage:'', Err deleteStorageError] s2
                          | _ \<Rightarrow> s2)
               in case throw_on_error (ask (ImagesDelete id') (images_delete c id') s2') of
                    (Inl e, s3) \<Rightarrow> (Inl e, s3)
                  | (Inr _, s3) \<Rightarrow>
                      let s4 = (case ask (MetadataDelete url) (metadata_delete c url) s3 of
                                  (Resolved_data _, s') \<Rightarrow> s'
                                | (Resolved_error deleteMetadataError, s') \<Rightarrow>
                                    console_error [Text ''Erro ao deletar metadata:'', Err deleteMetadataError] s'
                                | (Rejected metadataError, s') \<Rightarrow>
                                    console_error [Text ''Erro ao deletar metadata:'', Err metadataError] s')
                      in (Inr (res_json 200 (JObject [(''success'', JBool True)])), s4)))"

definition delete_handler :: "'w client \<Rightarrow> string \<Rightarrow> 'w sys \<Rightarrow> response \<times> 'w sys" where
  "delete_handler c id' s =
     (case delete_try c id' s of
        (Inr r, s1) \<Rightarrow> (r, s1)
      | (Inl e, s1) \<Rightarrow>
          (res_json 500 (JObject [(''error'', JString ''Erro ao excluir imagem''),
                                  (''details'', JString (message e))]),
           console_error [Text ''Erro ao excluir imagem:'', Err e] s1))"

subsection \<open>POST /upload-profile\<close>

text \<open>The code PostgREST gives to the error of \<^verbatim>\<open>single()\<close> when the result is not exactly
  one row.\<close>

definition PGRST116 :: string where
  "PGRST116 = ''PGRST116''"

definition upload_profile_try ::
  "'w client \<Rightarrow> clock \<Rightarrow> request \<Rightarrow> 'w sys \<Rightarrow> (js_error + response) \<times> 'w sys" where
  "upload_profile_try c clk req s =
     (case req_file req of
        None \<Rightarrow> (Inr (res_json 400 (JObject [(''error'', JString ''Nenhuma imagem enviada'')])), s)
      | Some f \<Rightarrow>
          (case req_body req ''user_id'' of
             None \<Rightarrow> (Inr (res_json 400 (JObject [(''error'', JString user_id_obrigatorio)])), s)
           | Some user_id \<Rightarrow>
               if user_id = []
               then (Inr (res_json 400 (JObject [(''error'', JString user_id_obrigatorio)])), s)
               else
                 (case readFileSync (path f) s of
                    Inl e \<Rightarrow> (Inl e, s)
                  | Inr fileBuffer \<Rightarrow>
                      let fileName = ''profile_'' @ user_id @ ''.jpg'';
                          filePath = fileName
                      in case throw_on_error
                                (ask (StorageUpload ''profiles'' filePath fileBuffer
                                        \<lparr>cacheControl = ''3600'', upsert = True, contentType = mimetype f\<rparr>)
                                     (storage_upload c ''profiles'' filePath fileBuffer
                                        \<lparr>cacheControl = ''3600'', upsert = True, contentType = mimetype f\<rparr>) s) of
                           (Inl e, s1) \<Rightarrow> (Inl e, s1)
                         | (Inr _, s1) \<Rightarrow>
                             let publicUrl = storage_getPublicUrl c ''profiles'' filePath
                             in case ask (UsersSelectId user_id) (users_select_id c user_id) s1 of
                                  (Rejected e, s2) \<Rightarrow> (Inl e, s2)
                                | (found, s2) \<Rightarrow>
                                    (case (case found of
                                             Resolved_error findError \<Rightarrow>
                                               if code findError \<noteq> Some PGRST116 then Inl findError else Inr JNull
                                           | Resolved_data existingUser \<Rightarrow> Inr existingUser
                                           | Rejected e \<Rightarrow> Inl e) of
                                       Inl e \<Rightarrow> (Inl e, s2)
                                     | Inr existingUser \<Rightarrow>
                                         (case (if truthy existingUser
                                                then throw_on_error
                                                       (ask (UsersUpdate user_id
                                                               (JObject [(''profile_image_url'', JString publicUrl)]))
                                                            (users_update c user_id
                                                               (JObject [(''profile_image_url'', JString publicUrl)])) s2)
                                                else throw_on_error
                                                       (ask (UsersInsert
                                                               (JArray [JObject [(''firebase_id'', JString user_id),
                                                                                 (''profile_image_url'', JString publicUrl),
                                                                                 (''created_at'', JString (toISOString clk))]]))
                                                            (users_insert c
                                                               (JArray [JObject [(''firebase_id'', JString user_id),
                                                                                 (''profile_image_url'', JString publicUrl),
                                                                                 (''created_at'', JString (toISOString clk))]])) s2)) of
                                            (Inl e, s3) \<Rightarrow> (Inl e, s3)
                                          | (Inr _, s3) \<Rightarrow>
                                              (case unlinkSync (path f) s3 of
                                                 Inl e \<Rightarrow> (Inl e, s3)
                                               | Inr s4 \<Rightarrow>
                                                   (Inr (res_json 200
                                                           (JObject [(''message'', JString ''Imagem de perfil atualizada com sucesso!''),
                                                                     (''profileImageUrl'', JString publicUrl)])),
                                                    s4)))))))"

definition upload_profile_handler :: "'w client \<Rightarrow> clock \<Rightarrow> request \<Rightarrow> 'w sys \<Rightarrow> response \<times> 'w sys" where
  "upload_profile_handler c clk req s =
     (case upload_profile_try c clk req s of
        (Inr r, s1) \<Rightarrow> (r, s1)
      | (Inl e, s1) \<Rightarrow>
          upload_catch ''Erro no upload de perfil:'' ''Erro ao fazer upload da imagem de perfil'' req e s1)"

subsection \<open>GET /profile-image/:user_id\<close>

definition profile_image_try :: "'w client \<Rightarrow> string \<Rightarrow> 'w sys \<Rightarrow> (js_error + response) \<times> 'w sys" where
  "profile_image_try c user_id s =
     (case ask (UsersSelectProfile user_id) (users_select_profile c user_id) s of
        (Rejected e, s1) \<Rightarrow> (Inl e, s1)
      | (Resolved_error e, s1) \<Rightarrow>
          if code e = Some PGRST116
          then (Inr (res_json 404 (JObject [(''error'', JString usuario_nao_encontrado)])), s1)
          else (Inl e, s1)
      | (Resolved_data profile_image_url, s1) \<Rightarrow>
          if \<not> truthy_field profile_image_url
          then (Inr (res_json 404 (JObject [(''error'', JString imagem_de_perfil_nao_encontrada)])), s1)
          else
            (case profile_image_url of
               None \<Rightarrow> (Inr (res_json 404 (JObject [(''error'', JString imagem_de_perfil_nao_encontrada)])), s1)
             | Some u \<Rightarrow>
                 if prefix ''http'' u
                 then (Inr (res_json 200 (JObject [(''profileImageUrl'', JString u)])), s1)
                 else (Inr (res_json 200
                              (JObject [(''profileImageUrl'', JString (storage_getPublicUrl c ''profiles'' u))])),
                       s1)))"

definition profile_image_handler :: "'w client \<Rightarrow> string \<Rightarrow> 'w sys \<Rightarrow> response \<times> 'w sys" where
  "profile_image_handler c user_id s =
     (case profile_image_try c user_id s of
        (Inr r, s1) \<Rightarrow> (r, s1)
      | (Inl e, s1) \<Rightarrow>
          (res_json 500 (JObject [(''error'', JString ''Erro ao buscar imagem de perfil''),
                                  (''details'', JString (message e))]),
           console_error [Text ''Erro ao buscar imagem de perfil:'', Err e] s1))"

section \<open>A reference backend\<close>

text \<open>
  The store behind the client is not part of the repository. Claims about what is in the
  store after a request need one, so here is a small one: tables as lists of rows, buckets as
  a map from bucket and key to content, every call doing what the client's documentation says
  it does when nothing fails. \<open>createClient\<close> builds the client of the source from
  \<^verbatim>\<open>SUPABASE_URL\<close>, which the public and signed URLs start with.
\<close>

record user_row =
  user_pk :: nat
  firebase_id :: string
  profile_image_url :: "string option"
  user_created_at :: json

record store =
  images_table :: "image_row list"
  images_metadata :: "string list"
  users_table :: "user_row list"
  buckets :: "string \<times> string \<rightharpoonup> buffer"
  serial :: nat

definition not_one_row :: js_error where
  "not_one_row = \<lparr>message = ''JSON object requested, multiple (or no) rows returned'', code = Some PGRST116\<rparr>"

definition bad_input :: js_error where
  "bad_input = \<lparr>message = ''invalid input syntax'', code = Some ''22P02''\<rparr>"

definition already_exists :: js_error where
  "already_exists = \<lparr>message = ''The resource already exists'', code = None\<rparr>"

definition object_not_found :: js_error where
  "object_not_found = \<lparr>message = ''Object not found'', code = None\<rparr>"

text \<open>The value of a column in a row that is inserted: \<^verbatim>\<open>null\<close> when the row does not name it.\<close>

definition column :: "(string \<times> json) list \<Rightarrow> string \<Rightarrow> json" where
  "column kvs k = (case map_of kvs k of None \<Rightarrow> JNull | Some v \<Rightarrow> v)"

definition text_column :: "(string \<times> json) list \<Rightarrow> string \<Rightarrow> string option" where
  "text_column kvs k = (case map_of kvs k of Some (JString t) \<Rightarrow> Some t | _ \<Rightarrow> None)"

text \<open>Primary keys of \<^verbatim>\<open>images\<close> are numbers; the path parameter \<^verbatim>\<open>:id\<close> is their decimal text.\<close>

definition is_digit :: "char \<Rightarrow> bool" where
  "is_digit c = (c \<in> set ''0123456789'')"

definition digit_val :: "char \<Rightarrow> nat" where
  "digit_val c = of_char c - 48"

definition digits_val :: "string \<Rightarrow> nat" where
  "digits_val ds = foldl (\<lambda>a c. 10 * a + digit_val c) 0 ds"

definition key_of_param :: "string \<Rightarrow> json option" where
  "key_of_param p = (if p \<noteq> [] \<and> list_all is_digit p then Some (JNumber (of_nat (digits_val p))) else None)"

definition ref_images_select_all :: "store \<Rightarrow> image_row list reply \<times> store" where
  "ref_images_select_all st = (Resolved_data (images_table st), st)"

definition ref_images_insert :: "json \<Rightarrow> store \<Rightarrow> image_row list reply \<times> store" where
  "ref_images_insert v st =
     (case v of
        JArray [JObject kvs] \<Rightarrow>
          (case text_column kvs ''url'' of
             None \<Rightarrow> (Resolved_error bad_input, st)
           | Some u \<Rightarrow>
               let row = \<lparr>image_id = JNumber (of_nat (serial st)),
                          image_url = u,
                          image_user_id = column kvs ''user_id'',
                          image_created_at = column kvs ''created_at'',
                          image_latitude = column kvs ''latitude'',
                          image_longitude = column kvs ''longitude'',
                          image_analysis = column kvs ''analysis''\<rparr>
               in (Resolved_data [row],
                   st\<lparr>images_table := row # images_table st, serial := Suc (serial st)\<rparr>))
      | _ \<Rightarrow> (Resolved_error bad_input, st))"

definition ref_images_select_url :: "string \<Rightarrow> store \<Rightarrow> string option reply \<times> store" where
  "ref_images_select_url p st =
     (case key_of_param p of
        None \<Rightarrow> (Resolved_error bad_input, st)
      | Some k \<Rightarrow>
          (case filter (\<lambda>r. image_id r = k) (images_table st) of
             [r] \<Rightarrow> (Resolved_data (Some (image_url r)), st)
           | _ \<Rightarrow> (Resolved_error not_one_row, st)))"

definition ref_images_delete :: "string \<Rightarrow> store \<Rightarrow> unit reply \<times> store" where
  "ref_images_delete p st =
     (case key_of_param p of
        None \<Rightarrow> (Resolved_error bad_input, st)
      | Some k \<Rightarrow> (Resolved_data (), st\<lparr>images_table := filter (\<lambda>r. image_id r \<noteq> k) (images_table st)\<rparr>))"

definition ref_metadata_delete :: "string \<Rightarrow> store \<Rightarrow> unit reply \<times> store" where
  "ref_metadata_delete p st =
     (Resolved_data (), st\<lparr>images_metadata := filter (\<lambda>q. q \<noteq> p) (images_metadata st)\<rparr>)"

definition ref_users_select_id :: "string \<Rightarrow> store \<Rightarrow> json reply \<times> store" where
  "ref_users_select_id uid st =
     (case filter (\<lambda>r. firebase_id r = uid) (users_table st) of
        [r] \<Rightarrow> (Resolved_data (JObject [(''id'', JNumber (of_nat (user_pk r)))]), st)
      | _ \<Rightarrow> (Resolved_error not_one_row, st))"

definition ref_users_update :: "string \<Rightarrow> json \<Rightarrow> store \<Rightarrow> unit reply \<times> store" where
  "ref_users_update uid v st =
     (case v of
        JObject kvs \<Rightarrow>
          (Resolved_data (),
           st\<lparr>users_table :=
                map (\<lambda>r. if firebase_id r = uid
                          then (case map_of kvs ''profile_image_url'' of
                                  None \<Rightarrow> r
                                | Some x \<Rightarrow> r\<lparr>profile_image_url := text_column kvs ''profile_image_url''\<rparr>)
                          else r)
                    (users_table st)\<rparr>)
      | _ \<Rightarrow> (Resolved_error bad_input, st))"

definition ref_users_insert :: "json \<Rightarrow> store \<Rightarrow> unit reply \<times> store" where
  "ref_users_insert v st =
     (case v of
        JArray [JObject kvs] \<Rightarrow>
          (case text_column kvs ''firebase_id'' of
             None \<Rightarrow> (Resolved_error bad_input, st)
           | Some uid \<Rightarrow>
               (Resolved_data (),
                st\<lparr>users_table :=
                     users_table st @
                       [\<lparr>user_pk = serial st,
                         firebase_id = uid,
                         profile_image_url = text_column kvs ''profile_image_url'',
                         user_created_at = column kvs ''created_at''\<rparr>],
                   serial := Suc (serial st)\<rparr>))
      | _ \<Rightarrow> (Resolved_error bad_input, st))"

definition ref_users_select_profile :: "string \<Rightarrow> store \<Rightarrow> string option reply \<times> store" where
  "ref_users_select_profile uid st =
     (case filter (\<lambda>r. firebase_id r = uid) (users_table st) of
        [r] \<Rightarrow> (Resolved_data (profile_image_url r), st)
      | _ \<Rightarrow> (Resolved_error not_one_row, st))"

definition ref_storage_upload ::
  "string \<Rightarrow> string \<Rightarrow> buffer \<Rightarrow> upload_options \<Rightarrow> store \<Rightarrow> unit reply \<times> store" where
  "ref_storage_upload bucket key bytes opts st =
     (if buckets st (bucket, key) \<noteq> None \<and> \<not> upsert opts
      then (Resolved_error already_exists, st)
      else (Resolved_data (), st\<lparr>buckets := (buckets st)((bucket, key) \<mapsto> bytes)\<rparr>))"

definition ref_getPublicUrl :: "string \<Rightarrow> string \<Rightarrow> string \<Rightarrow> string" where
  "ref_getPublicUrl supabaseUrl bucket key =
     supabaseUrl @ ''/storage/v1/object/public/'' @ bucket @ ''/'' @ key"

definition ref_createSignedUrl ::
  "string \<Rightarrow> string \<Rightarrow> string \<Rightarrow> nat \<Rightarrow> store \<Rightarrow> string reply \<times> store" where
  "ref_createSignedUrl supabaseUrl bucket key seconds st =
     (if buckets st (bucket, key) = None
      then (Resolved_error object_not_found, st)
      else (Resolved_data (supabaseUrl @ ''/storage/v1/object/sign/'' @ bucket @ ''/'' @ key
                             @ ''?token=t'' @ show_nat seconds), st))"

definition ref_storage_remove :: "string \<Rightarrow> string list \<Rightarrow> store \<Rightarrow> unit reply \<times> store" where
  "ref_storage_remove bucket keys st =
     (Resolved_data (), st\<lparr>buckets := (\<lambda>(b, k). if b = bucket \<and> k \<in> set keys then None else buckets st (b, k))\<rparr>)"

definition createClient :: "string \<Rightarrow> store client" where
  "createClient supabaseUrl =
     \<lparr>images_select_all = ref_images_select_all,
      images_insert = ref_images_insert,
      images_select_url = ref_images_select_url,
      images_delete = ref_images_delete,
      metadata_delete = ref_metadata_delete,
      users_select_id = ref_users_select_id,
      users_update = ref_users_update,
      users_insert = ref_users_insert,
      users_select_profile = ref_users_select_profile,
      storage_upload = ref_storage_upload,
      storage_getPublicUrl = ref_getPublicUrl supabaseUrl,
      storage_createSignedUrl = ref_createSignedUrl supabaseUrl,
      storage_remove = ref_storage_remove\<rparr>"

section \<open>Reading a response, and the resolution of URLs in the words of the specification\<close>

text \<open>The value of a key of a JSON object.\<close>

definition field :: "json \<Rightarrow> string \<Rightarrow> json option" where
  "field v k = (case v of JObject kvs \<Rightarrow> map_of kvs k | _ \<Rightarrow> None)"

text \<open>
  The URLs of a list of records as the specification describes them, written without the
  handler: the records are taken in order, from the state \<open>w\<close> the store is in. A stored
  reference that starts with \<^verbatim>\<open>http\<close> is the URL, and nothing is asked. For any other
  reference a signed URL is requested for that key in the bucket \<^verbatim>\<open>imagens\<close>, valid for 3600
  seconds; the URL is the signed URL when the request gives one, and the public URL of the
  same key when the request reports an error. A request that throws gives no URL (\<open>Inl\<close>).
  The result is the list of URLs and the state after the last request.
\<close>

fun resolve_urls :: "'w client \<Rightarrow> image_row list \<Rightarrow> 'w \<Rightarrow> (js_error + string) list \<times> 'w" where
  "resolve_urls c [] w = ([], w)"
| "resolve_urls c (img # rest) w =
     (if prefix ''http'' (image_url img)
      then (case resolve_urls c rest w of (us, w') \<Rightarrow> (Inr (image_url img) # us, w'))
      else
        (case storage_createSignedUrl c ''imagens'' (image_url img) 3600 w of
           (rep, w1) \<Rightarrow>
             (case resolve_urls c rest w1 of
                (us, w') \<Rightarrow>
                  ((case rep of
                      Resolved_data signed \<Rightarrow> Inr signed
                    | Resolved_error _ \<Rightarrow> Inr (storage_getPublicUrl c ''imagens'' (image_url img))
                    | Rejected e \<Rightarrow> Inl e) # us,
                   w'))))"

section \<open>Example data\<close>

definition supabase :: "store client" where
  "supabase = createClient ''https://abc.supabase.co''"

definition cat_row :: image_row where
  "cat_row = \<lparr>image_id = JNumber 7, image_url = ''images/1_cat.jpg'', image_user_id = JString ''alice'',
              image_created_at = JString ''2023-11-14T22:13:20.000Z'', image_latitude = JNumber 0,
              image_longitude = JNumber (- 47 / 2), image_analysis = JString []\<rparr>"

definition dog_row :: image_row where
  "dog_row = \<lparr>image_id = JNumber 8, image_url = ''https://cdn.example.com/dog.jpg'', image_user_id = JString ''bob'',
              image_created_at = JString ''2023-11-13T08:00:00.000Z'', image_latitude = JNumber (25 / 2),
              image_longitude = JNumber 0, image_analysis = JString ''a dog''\<rparr>"

definition lost_row :: image_row where
  "lost_row = \<lparr>image_id = JNumber 9, image_url = ''images/2_lost.jpg'', image_user_id = JString ''bob'',
               image_created_at = JString ''2023-11-12T08:00:00.000Z'', image_latitude = JNull,
               image_longitude = JNull, image_analysis = JNull\<rparr>"

definition example_users :: "user_row list" where
  "example_users =
     [\<lparr>user_pk = 1, firebase_id = ''alice'',
       profile_image_url = Some ''https://abc.supabase.co/storage/v1/object/public/profiles/profile_alice.jpg'',
       user_created_at = JString ''2023-11-01T08:00:00.000Z''\<rparr>,
      \<lparr>user_pk = 2, firebase_id = ''bob'', profile_image_url = Some ''profile_bob.jpg'',
       user_created_at = JString ''2023-11-02T08:00:00.000Z''\<rparr>,
      \<lparr>user_pk = 3, firebase_id = ''carol'', profile_image_url = None,
       user_created_at = JString ''2023-11-03T08:00:00.000Z''\<rparr>]"

definition example_store :: store where
  "example_store =
     \<lparr>images_table = [cat_row, dog_row, lost_row],
      images_metadata = [''images/1_cat.jpg''],
      users_table = example_users,
      buckets = [(''imagens'', ''images/1_cat.jpg'') \<mapsto> ''JPEG''],
      serial = 10\<rparr>"

definition example_file :: uploaded_file where
  "example_file = \<lparr>path = ''uploads/3f2a'', originalname = Some ''cat.jpg'', mimetype = ''image/jpeg''\<rparr>"

definition example_sys :: "store sys" where
  "example_sys = \<lparr>world = example_store, files = [''uploads/3f2a'' \<mapsto> ''JPEG2''], calls = [], stderr = []\<rparr>"

definition example_clock :: clock where
  "example_clock = \<lparr>date_now = 1700000000000, toISOString = ''2023-11-14T22:13:20.000Z''\<rparr>"

text \<open>A multipart request with a file and no \<^verbatim>\<open>user_id\<close>.\<close>

definition request_without_user_id :: request where
  "request_without_user_id = \<lparr>req_file = Some example_file, req_body = Map.empty\<rparr>"

text \<open>A complete upload: the longitude is not a number, the analysis is empty.\<close>

definition example_upload :: request where
  "example_upload =
     \<lparr>req_file = Some example_file,
      req_body = [''user_id'' \<mapsto> ''alice'', ''latitude'' \<mapsto> ''-23.5'', ''longitude'' \<mapsto> ''abc'',
                  ''analysis'' \<mapsto> '''']\<rparr>"

text \<open>
  What \<^verbatim>\<open>parseFloat\<close> returns for the two strings of that upload, \<^verbatim>\<open>-23.5\<close> for
  \<^verbatim>\<open>'-23.5'\<close> and \<^verbatim>\<open>NaN\<close> for \<^verbatim>\<open>'abc'\<close>. The examples apply it to no other string.
\<close>

definition example_parseFloat :: "string \<Rightarrow> jsnum" where
  "example_parseFloat t = (if t = ''-23.5'' then Finite (- 47 / 2) else NaN)"


text \<open>What postgrest-js reports when the request never reached the server.\<close>

definition fetch_failed :: js_error where
  "fetch_failed = \<lparr>message = ''TypeError: fetch failed'', code = Some []\<rparr>"

text \<open>Clients that fail at one place.\<close>

definition outage_client :: "store client" where
  "outage_client = supabase\<lparr>images_select_url := \<lambda>p st. (Resolved_error fetch_failed, st)\<rparr>"

definition rejecting_client :: "store client" where
  "rejecting_client = supabase\<lparr>images_select_url := \<lambda>p st. (Rejected fetch_failed, st)\<rparr>"

definition flaky_client :: "store client" where
  "flaky_client = supabase\<lparr>storage_remove := \<lambda>b ks st. (Resolved_error object_not_found, st),
                           metadata_delete := \<lambda>p st. (Rejected fetch_failed, st)\<rparr>"

definition readonly_client :: "store client" where
  "readonly_client = supabase\<lparr>images_delete := \<lambda>p st. (Resolved_error fetch_failed, st)\<rparr>"

section \<open>Properties\<close>

subsection \<open>The list of images\<close>

text \<open>The callbacks of the handler compute the URLs of the specification, record by record.\<close>

lemma map_callbacks_resolve:
  assumes "map_callbacks c rows s = (rs, s')"
  shows "rs = map (\<lambda>(img, x). case x of Inl e \<Rightarrow> Inl e | Inr u \<Rightarrow> Inr (image_view img u))
                  (zip rows (fst (resolve_urls c rows (world s))))
       \<and> length (fst (resolve_urls c rows (world s))) = length rows
       \<and> world s' = snd (resolve_urls c rows (world s))
       \<and> calls s' = calls s @ map (\<lambda>img. StorageCreateSignedUrl ''imagens'' (image_url img) 3600)
                                 (filter (\<lambda>img. \<not> prefix ''http'' (image_url img)) rows)"
  using assms
proof (induction rows arbitrary: s rs s')
  case Nil
  then show ?case by simp
next
  case (Cons img rows)
  obtain r s1 where first: "image_callback c img s = (r, s1)"
    by (cases "image_callback c img s")
  obtain rs' s2 where rest: "map_callbacks c rows s1 = (rs', s2)"
    by (cases "map_callbacks c rows s1")
  from Cons.prems first rest have eq: "rs = r # rs'" "s' = s2"
    by simp_all
  note IH = Cons.IH [OF rest]
  show ?case
  proof (cases "prefix ''http'' (image_url img)")
    case True
    with first have "r = Inr (image_view img (image_url img))" and "s1 = s"
      by (simp_all add: image_callback_def)
    with IH eq True show ?thesis
      by (simp add: case_prod_beta)
  next
    case False
    obtain rep w1 where asked: "storage_createSignedUrl c ''imagens'' (image_url img) 3600 (world s) = (rep, w1)"
      by (cases "storage_createSignedUrl c ''imagens'' (image_url img) 3600 (world s)")
    from first False asked
    have s1: "world s1 = w1"
      "calls s1 = calls s @ [StorageCreateSignedUrl ''imagens'' (image_url img) 3600]"
      and r: "r = (case rep of
                     Resolved_data signed \<Rightarrow> Inr (image_view img signed)
                   | Resolved_error _ \<Rightarrow> Inr (image_view img (storage_getPublicUrl c ''imagens'' (image_url img)))
                   | Rejected e \<Rightarrow> Inl e)"
      by (auto simp add: image_callback_def ask_def console_error_def split: reply.splits)
    from IH eq False asked s1 r show ?thesis
      by (simp add: case_prod_beta split: reply.splits)
  qed
qed

lemma promise_all_values:
  "promise_all rs = Inr vs \<Longrightarrow> rs = map Inr vs"
  by (induction rs arbitrary: vs rule: promise_all.induct) (auto split: sum.splits)

lemma promise_all_fulfilled:
  "promise_all (map Inr vs) = Inr vs"
  by (induction vs) simp_all

lemma fulfilled_callbacks:
  assumes "length xs = length rows"
      and "map (\<lambda>(img, x). case x of Inl e \<Rightarrow> Inl e | Inr u \<Rightarrow> Inr (g img u)) (zip rows xs) = map Inr views"
  shows "\<exists>urls. xs = map Inr urls \<and> length urls = length rows
               \<and> views = map (\<lambda>(img, u). g img u) (zip rows urls)"
  using assms
proof (induction xs rows arbitrary: views rule: list_induct2)
  case Nil
  then show ?case by simp
next
  case (Cons x xs row rows)
  from Cons.prems obtain v views' where views: "views = v # views'"
    by (cases views) auto
  with Cons.prems obtain u where x: "x = Inr u" and v: "v = g row u"
    by (cases x) auto
  from Cons.prems views
  have "map (\<lambda>(img, x). case x of Inl e \<Rightarrow> Inl e | Inr u \<Rightarrow> Inr (g img u)) (zip rows xs) = map Inr views'"
    by simp
  from Cons.IH [OF this] obtain urls where "xs = map Inr urls" "length urls = length rows"
      "views' = map (\<lambda>(img, u). g img u) (zip rows urls)"
    by blast
  with x v views have "x # xs = map Inr (u # urls) \<and> length (u # urls) = length (row # rows)
               \<and> views = map (\<lambda>(img, u). g img u) (zip (row # rows) (u # urls))"
    by simp
  then show ?case by (rule exI)
qed

lemma resolve_urls_no_rejection:
  assumes "\<forall>b k t w e w'. storage_createSignedUrl c b k t w \<noteq> (Rejected e, w')"
  shows "\<exists>urls. fst (resolve_urls c rows w) = map Inr urls"
proof (induction rows arbitrary: w)
  case Nil
  show ?case by simp
next
  case (Cons img rows)
  show ?case
  proof (cases "prefix ''http'' (image_url img)")
    case True
    from Cons.IH [of w] obtain urls where "fst (resolve_urls c rows w) = map Inr urls"
      by blast
    with True have "fst (resolve_urls c (img # rows) w) = map Inr (image_url img # urls)"
      by (simp add: case_prod_beta)
    then show ?thesis by (rule exI)
  next
    case False
    obtain rep w1 where asked: "storage_createSignedUrl c ''imagens'' (image_url img) 3600 w = (rep, w1)"
      by (cases "storage_createSignedUrl c ''imagens'' (image_url img) 3600 w")
    with assms have "\<forall>e. rep \<noteq> Rejected e"
      by auto
    then obtain u where u: "(case rep of
                      Resolved_data signed \<Rightarrow> Inr signed
                    | Resolved_error _ \<Rightarrow> Inr (storage_getPublicUrl c ''imagens'' (image_url img))
                    | Rejected e \<Rightarrow> Inl e) = (Inr u :: js_error + string)"
      by (cases rep) auto
    from Cons.IH [of w1] obtain urls where "fst (resolve_urls c rows w1) = map Inr urls"
      by blast
    with False asked u have "fst (resolve_urls c (img # rows) w) = map Inr (u # urls)"
      by (simp add: case_prod_beta)
    then show ?thesis by (rule exI)
  qed
qed

lemma resolve_urls_length: "length (fst (resolve_urls c rows w)) = length rows"
  by (induction rows arbitrary: w) (simp_all add: case_prod_beta)

lemma resolve_urls_unchanged:
  "i < length rows \<Longrightarrow> prefix ''http'' (image_url (rows ! i)) \<Longrightarrow>
     fst (resolve_urls c rows w) ! i = Inr (image_url (rows ! i))"
proof (induction rows arbitrary: i w)
  case Nil
  then show ?case by simp
next
  case (Cons img rows)
  show ?case
  proof (cases i)
    case 0
    with Cons.prems show ?thesis
      by (simp add: case_prod_beta)
  next
    case (Suc j)
    with Cons.prems have "j < length rows" "prefix ''http'' (image_url (rows ! j))"
      by simp_all
    from Cons.IH [OF this] Suc show ?thesis
      by (simp add: case_prod_beta)
  qed
qed

lemma images_handler_resolved:
  assumes select: "images_select_all c (world s) = (Resolved_data rows, w1)"
      and run: "images_handler c s = (r, s')"
      and ok: "status r = 200"
  shows "\<exists>urls. fst (resolve_urls c rows w1) = map Inr urls \<and> length urls = length rows
           \<and> sent r = JArray (map (\<lambda>(img, u). image_view img u) (zip rows urls))
           \<and> world s' = snd (resolve_urls c rows w1)
           \<and> calls s' = calls s @ ImagesSelectAll #
                map (\<lambda>img. StorageCreateSignedUrl ''imagens'' (image_url img) 3600)
                    (filter (\<lambda>img. \<not> prefix ''http'' (image_url img)) rows)"
proof -
  let ?s1 = "s\<lparr>world := w1, calls := calls s @ [ImagesSelectAll]\<rparr>"
  obtain rs s2 where cb: "map_callbacks c rows ?s1 = (rs, s2)"
    by (cases "map_callbacks c rows ?s1")
  from run ok select cb obtain views where all: "promise_all rs = Inr views"
    and r: "sent r = JArray views" and s': "s' = s2"
    by (auto simp add: images_handler_def images_try_def ask_def throw_on_error_def res_json_def
        split: sum.splits)
  note res = map_callbacks_resolve [OF cb]
  from res promise_all_values [OF all]
  have "map (\<lambda>(img, x). case x of Inl e \<Rightarrow> Inl e | Inr u \<Rightarrow> Inr (image_view img u))
            (zip rows (fst (resolve_urls c rows w1))) = map Inr views"
    by simp
  from fulfilled_callbacks [OF resolve_urls_length this]
  obtain urls where "fst (resolve_urls c rows w1) = map Inr urls" "length urls = length rows"
      "views = map (\<lambda>(img, u). image_view img u) (zip rows urls)"
    by blast
  with r s' res show ?thesis
    by simp
qed

lemma images_handler_never_aborts:
  assumes select: "images_select_all c (world s) = (Resolved_data rows, w1)"
      and no_reject: "\<forall>b k t w e w'. storage_createSignedUrl c b k t w \<noteq> (Rejected e, w')"
      and run: "images_handler c s = (r, s')"
  shows "status r = 200"
proof -
  let ?s1 = "s\<lparr>world := w1, calls := calls s @ [ImagesSelectAll]\<rparr>"
  obtain rs s2 where cb: "map_callbacks c rows ?s1 = (rs, s2)"
    by (cases "map_callbacks c rows ?s1")
  from resolve_urls_no_rejection [OF no_reject, of rows w1]
  obtain urls where urls: "fst (resolve_urls c rows w1) = map Inr urls"
    by blast
  with map_callbacks_resolve [OF cb]
  have "rs = map Inr (map (\<lambda>(img, u). image_view img u) (zip rows urls))"
    by (simp add: zip_map2 case_prod_unfold)
  then have "promise_all rs = Inr (map (\<lambda>(img, u). image_view img u) (zip rows urls))"
    by (simp only: promise_all_fulfilled)
  with run select cb show ?thesis
    by (auto simp add: images_handler_def images_try_def ask_def throw_on_error_def res_json_def)
qed

lemma images_handler_ok:
  assumes select: "images_select_all c (world s) = (Resolved_data rows, w1)"
      and run: "images_handler c s = (r, s')"
      and ok: "status r = 200"
  shows "\<exists>views. sent r = JArray views \<and> length views = length rows
           \<and> (\<forall>i<length rows. \<exists>u. views ! i = image_view (rows ! i) u)"
proof -
  from images_handler_resolved [OF select run ok]
  obtain urls where len: "length urls = length rows"
    and sent: "sent r = JArray (map (\<lambda>(img, u). image_view img u) (zip rows urls))"
    by blast
  from len have "\<forall>i<length rows. \<exists>u. map (\<lambda>(img, u). image_view img u) (zip rows urls) ! i = image_view (rows ! i) u"
    by auto
  with sent len show ?thesis
    by simp
qed

lemma supabase_never_rejects_signing:
  "\<forall>b k t w e w'. storage_createSignedUrl supabase b k t w \<noteq> (Rejected e, w')"
  by (simp add: supabase_def createClient_def ref_createSignedUrl_def)

lemma supabase_select_all:
  "images_select_all supabase (world example_sys) = (Resolved_data [cat_row, dog_row, lost_row], example_store)"
  by (simp add: supabase_def createClient_def ref_images_select_all_def example_sys_def example_store_def)

lemma example_images_response:
  "fst (images_handler supabase example_sys)
     = res_json 200 (JArray
         [image_view cat_row ''https://abc.supabase.co/storage/v1/object/sign/imagens/images/1_cat.jpg?token=t3600'',
          image_view dog_row ''https://cdn.example.com/dog.jpg'',
          image_view lost_row ''https://abc.supabase.co/storage/v1/object/public/imagens/images/2_lost.jpg''])"
  by (simp add: images_handler_def images_try_def image_callback_def ask_def throw_on_error_def
      supabase_def createClient_def ref_images_select_all_def ref_createSignedUrl_def ref_getPublicUrl_def
      example_sys_def example_store_def cat_row_def dog_row_def lost_row_def console_error_def
      show_nat.simps digit_char_def)

lemma example_resolve_urls:
  "resolve_urls supabase [cat_row, dog_row, lost_row] example_store
     = ([Inr ''https://abc.supabase.co/storage/v1/object/sign/imagens/images/1_cat.jpg?token=t3600'',
         Inr ''https://cdn.example.com/dog.jpg'',
         Inr ''https://abc.supabase.co/storage/v1/object/public/imagens/images/2_lost.jpg''],
        example_store)"
  by (simp add: supabase_def createClient_def ref_createSignedUrl_def ref_getPublicUrl_def
      example_store_def cat_row_def dog_row_def lost_row_def show_nat.simps digit_char_def)

text \<open>
  C4. Once the records were fetched, \<^verbatim>\<open>GET /images\<close> answers 200 with one object for each
  record, in order, whatever errors the requests for signed URLs report: such an error never
  aborts the list. The \<^verbatim>\<open>url\<close> of each object is the URL of the specification
  (\<open>resolve_urls\<close>, computed from the state the store is in after the fetch): the stored
  reference unchanged when it starts with \<^verbatim>\<open>http\<close>; otherwise the signed URL requested for
  that key with a validity of 3600 seconds, or the public URL of the same key when that
  request reports an error. The requests made are those for the references that do not start
  with \<^verbatim>\<open>http\<close>, and the store is left as they leave it. (A request whose promise rejects is
  not an error the client reports; the hypothesis \<open>no_reject\<close> sets it aside.)
\<close>

theorem images_url_resolution:
  assumes select: "images_select_all c (world s) = (Resolved_data rows, w1)"
      and no_reject: "\<forall>b k t w e w'. storage_createSignedUrl c b k t w \<noteq> (Rejected e, w')"
      and run: "images_handler c s = (r, s')"
  shows "status r = 200
       \<and> (\<exists>urls. fst (resolve_urls c rows w1) = map Inr urls
             \<and> length urls = length rows
             \<and> sent r = JArray
                  (map (\<lambda>(img, u). JObject [(''id'', image_id img),
                                            (''url'', JString u),
                                            (''user_id'', image_user_id img),
                                            (''created_at'', image_created_at img),
                                            (''latitude'', js_or (image_latitude img) JNull),
                                            (''longitude'', js_or (image_longitude img) JNull),
                                            (''analysis'', js_or (image_analysis img) JNull)])
                       (zip rows urls))
             \<and> (\<forall>i<length rows. prefix ''http'' (image_url (rows ! i)) \<longrightarrow> urls ! i = image_url (rows ! i)))
       \<and> world s' = snd (resolve_urls c rows w1)
       \<and> calls s' = calls s @ ImagesSelectAll #
            map (\<lambda>img. StorageCreateSignedUrl ''imagens'' (image_url img) 3600)
                (filter (\<lambda>img. \<not> prefix ''http'' (image_url img)) rows)"
proof -
  from images_handler_never_aborts [OF select no_reject run]
  have ok: "status r = 200" .
  from images_handler_resolved [OF select run ok]
  obtain urls where urls: "fst (resolve_urls c rows w1) = map Inr urls"
    and len: "length urls = length rows"
    and sent: "sent r = JArray (map (\<lambda>(img, u). image_view img u) (zip rows urls))"
    and after: "world s' = snd (resolve_urls c rows w1)"
    and asked: "calls s' = calls s @ ImagesSelectAll #
                map (\<lambda>img. StorageCreateSignedUrl ''imagens'' (image_url img) 3600)
                    (filter (\<lambda>img. \<not> prefix ''http'' (image_url img)) rows)"
    by blast
  have unchanged: "\<forall>i<length rows. prefix ''http'' (image_url (rows ! i)) \<longrightarrow> urls ! i = image_url (rows ! i)"
  proof (intro allI impI)
    fix i assume i: "i < length rows" and http: "prefix ''http'' (image_url (rows ! i))"
    from resolve_urls_unchanged [OF i http, of c w1] urls i len
    show "urls ! i = image_url (rows ! i)"
      by simp
  qed
  from sent have "sent r = JArray
                  (map (\<lambda>(img, u). JObject [(''id'', image_id img),
                                            (''url'', JString u),
                                            (''user_id'', image_user_id img),
                                            (''created_at'', image_created_at img),
                                            (''latitude'', js_or (image_latitude img) JNull),
                                            (''longitude'', js_or (image_longitude img) JNull),
                                            (''analysis'', js_or (image_analysis img) JNull)])
                       (zip rows urls))"
    by (simp add: image_view_def)
  with ok urls len unchanged after asked show ?thesis
    by blast
qed

theorem images_url_resolution_witness:
  "images_select_all supabase (world example_sys) = (Resolved_data [cat_row, dog_row, lost_row], example_store)
   \<and> (\<forall>b k t w e w'. storage_createSignedUrl supabase b k t w \<noteq> (Rejected e, w'))
   \<and> status (fst (images_handler supabase example_sys)) = 200
   \<and> resolve_urls supabase [cat_row, dog_row, lost_row] example_store
       = ([Inr ''https://abc.supabase.co/storage/v1/object/sign/imagens/images/1_cat.jpg?token=t3600'',
           Inr ''https://cdn.example.com/dog.jpg'',
           Inr ''https://abc.supabase.co/storage/v1/object/public/imagens/images/2_lost.jpg''],
          example_store)
   \<and> (\<exists>v1 v2 v3. sent (fst (images_handler supabase example_sys)) = JArray [v1, v2, v3]
        \<and> field v1 ''url''
            = Some (JString ''https://abc.supabase.co/storage/v1/object/sign/imagens/images/1_cat.jpg?token=t3600'')
        \<and> field v2 ''url'' = Some (JString ''https://cdn.example.com/dog.jpg'')
        \<and> field v3 ''url''
            = Some (JString ''https://abc.supabase.co/storage/v1/object/public/imagens/images/2_lost.jpg''))
   \<and> calls (snd (images_handler supabase example_sys))
       = [ImagesSelectAll,
          StorageCreateSignedUrl ''imagens'' ''images/1_cat.jpg'' 3600,
          StorageCreateSignedUrl ''imagens'' ''images/2_lost.jpg'' 3600]"
  using images_url_resolution [OF supabase_select_all supabase_never_rejects_signing prod.collapse [symmetric]]
        supabase_select_all supabase_never_rejects_signing example_images_response example_resolve_urls
  by (simp add: example_sys_def cat_row_def dog_row_def lost_row_def res_json_def image_view_def field_def)

text \<open>
  C9. In the list that \<^verbatim>\<open>GET /images\<close> answers with, a record whose stored latitude or
  longitude is the number 0, or whose stored analysis is the empty string, has \<^verbatim>\<open>null\<close> in
  that field: the default is taken with \<^verbatim>\<open>||\<close>, which replaces every falsy value.
\<close>

theorem images_falsy_fields_are_null:
  assumes select: "images_select_all c (world s) = (Resolved_data rows, w1)"
      and run: "images_handler c s = (r, s')"
      and ok: "status r = 200"
  shows "\<exists>views. sent r = JArray views \<and> length views = length rows
           \<and> (\<forall>i<length rows.
                 (image_latitude (rows ! i) = JNumber 0 \<longrightarrow> field (views ! i) ''latitude'' = Some JNull)
               \<and> (image_longitude (rows ! i) = JNumber 0 \<longrightarrow> field (views ! i) ''longitude'' = Some JNull)
               \<and> (image_analysis (rows ! i) = JString [] \<longrightarrow> field (views ! i) ''analysis'' = Some JNull))"
proof -
  from images_handler_ok [OF select run ok] obtain views
    where sent: "sent r = JArray views" and len: "length views = length rows"
      and each: "\<forall>i<length rows. \<exists>u. views ! i = image_view (rows ! i) u"
    by blast
  have "\<forall>i<length rows.
          (image_latitude (rows ! i) = JNumber 0 \<longrightarrow> field (views ! i) ''latitude'' = Some JNull)
        \<and> (image_longitude (rows ! i) = JNumber 0 \<longrightarrow> field (views ! i) ''longitude'' = Some JNull)
        \<and> (image_analysis (rows ! i) = JString [] \<longrightarrow> field (views ! i) ''analysis'' = Some JNull)"
  proof (intro allI impI)
    fix i assume "i < length rows"
    with each obtain u where "views ! i = image_view (rows ! i) u"
      by blast
    then show "(image_latitude (rows ! i) = JNumber 0 \<longrightarrow> field (views ! i) ''latitude'' = Some JNull)
        \<and> (image_longitude (rows ! i) = JNumber 0 \<longrightarrow> field (views ! i) ''longitude'' = Some JNull)
        \<and> (image_analysis (rows ! i) = JString [] \<longrightarrow> field (views ! i) ''analysis'' = Some JNull)"
      by (simp add: image_view_def field_def js_or_def)
  qed
  with sent len show ?thesis by blast
qed
theorem images_falsy_fields_are_null_witness:
  "image_latitude cat_row = JNumber 0 \<and> image_analysis cat_row = JString [] \<and> image_longitude dog_row = JNumber 0
   \<and> (\<exists>views. sent (fst (images_handler supabase example_sys)) = JArray views \<and> length views = 3
        \<and> field (views ! 0) ''latitude'' = Some JNull \<and> field (views ! 0) ''analysis'' = Some JNull
        \<and> field (views ! 1) ''longitude'' = Some JNull)"
proof -
  have ok: "status (fst (images_handler supabase example_sys)) = 200"
    by (simp add: example_images_response res_json_def)
  from images_falsy_fields_are_null [OF supabase_select_all prod.collapse [symmetric] ok]
  obtain views where v: "sent (fst (images_handler supabase example_sys)) = JArray views"
      "length views = length [cat_row, dog_row, lost_row]"
    and each: "\<forall>i<length [cat_row, dog_row, lost_row].
                 (image_latitude ([cat_row, dog_row, lost_row] ! i) = JNumber 0 \<longrightarrow> field (views ! i) ''latitude'' = Some JNull)
               \<and> (image_longitude ([cat_row, dog_row, lost_row] ! i) = JNumber 0 \<longrightarrow> field (views ! i) ''longitude'' = Some JNull)
               \<and> (image_analysis ([cat_row, dog_row, lost_row] ! i) = JString [] \<longrightarrow> field (views ! i) ''analysis'' = Some JNull)"
    by blast
  have rows: "image_latitude cat_row = JNumber 0" "image_analysis cat_row = JString []"
    "image_longitude dog_row = JNumber 0"
    by (simp_all add: cat_row_def dog_row_def)
  from each [rule_format, of 0] each [rule_format, of 1] rows
  have "field (views ! 0) ''latitude'' = Some JNull \<and> field (views ! 0) ''analysis'' = Some JNull
        \<and> field (views ! 1) ''longitude'' = Some JNull"
    by simp
  with v rows show ?thesis by simp
qed

subsection \<open>Deleting an image\<close>

text \<open>
  C3, as stated, fails: when the record fetch reports a failure of the backend (here the
  request never reached the server), the handler answers 404, not 500.
\<close>

theorem delete_fetch_failure_is_404:
  "images_select_url outage_client ''7'' (world example_sys) = (Resolved_error fetch_failed, example_store)
   \<and> fst (delete_handler outage_client ''7'' example_sys)
       = \<lparr>status = 404, sent = JObject [(''error'', JString imagem_nao_encontrada)]\<rparr>
   \<and> status (fst (delete_handler outage_client ''7'' example_sys)) \<noteq> 500"
  by (simp add: delete_handler_def delete_try_def outage_client_def ask_def res_json_def example_sys_def)

text \<open>
  C3, amended. For \<^verbatim>\<open>DELETE /images/:id\<close>, a missing record yields 404, and so does every error
  the record fetch reports, a failure of the backend included: whenever the fetch does not
  give a record, the answer is 404 with the not-found message, unless the call itself threw
  (its promise rejected), which yields 500 with the generic message and the description of
  the error.
\<close>

theorem delete_fetch_outcomes:
  assumes fetch: "images_select_url c id' (world s) = (found, w)"
      and no_record: "\<forall>url. found \<noteq> Resolved_data (Some url)"
  shows "fst (delete_handler c id' s)
           = (case found of
                Rejected e \<Rightarrow>
                  res_json 500 (JObject [(''error'', JString ''Erro ao excluir imagem''),
                                         (''details'', JString (message e))])
              | _ \<Rightarrow> res_json 404 (JObject [(''error'', JString imagem_nao_encontrada)]))"
proof (cases found)
  case (Resolved_data d)
  with no_record have "d = None" by (cases d) auto
  with fetch Resolved_data show ?thesis
    by (simp add: delete_handler_def delete_try_def ask_def)
next
  case (Resolved_error e)
  with fetch show ?thesis
    by (simp add: delete_handler_def delete_try_def ask_def)
next
  case (Rejected e)
  with fetch show ?thesis
    by (simp add: delete_handler_def delete_try_def ask_def)
qed

theorem delete_fetch_outcomes_witness:
  "images_select_url outage_client ''7'' (world example_sys) = (Resolved_error fetch_failed, example_store)
   \<and> (\<forall>url. Resolved_error fetch_failed \<noteq> Resolved_data (Some url))
   \<and> fst (delete_handler outage_client ''7'' example_sys)
       = res_json 404 (JObject [(''error'', JString imagem_nao_encontrada)])
   \<and> images_select_url supabase ''12'' (world example_sys) = (Resolved_error not_one_row, example_store)
   \<and> fst (delete_handler supabase ''12'' example_sys)
       = res_json 404 (JObject [(''error'', JString imagem_nao_encontrada)])
   \<and> images_select_url rejecting_client ''7'' (world example_sys) = (Rejected fetch_failed, example_store)
   \<and> fst (delete_handler rejecting_client ''7'' example_sys)
       = res_json 500 (JObject [(''error'', JString ''Erro ao excluir imagem''),
                                (''details'', JString ''TypeError: fetch failed'')])"
proof -
  have a: "images_select_url outage_client ''7'' (world example_sys) = (Resolved_error fetch_failed, example_store)"
    by (simp add: outage_client_def example_sys_def)
  have b: "images_select_url supabase ''12'' (world example_sys) = (Resolved_error not_one_row, example_store)"
    by (simp add: supabase_def createClient_def ref_images_select_url_def key_of_param_def is_digit_def
        digits_val_def digit_val_def example_sys_def example_store_def cat_row_def dog_row_def lost_row_def)
  have c: "images_select_url rejecting_client ''7'' (world example_sys) = (Rejected fetch_failed, example_store)"
    by (simp add: rejecting_client_def example_sys_def)
  from delete_fetch_outcomes [OF a] delete_fetch_outcomes [OF b] delete_fetch_outcomes [OF c] a b c
  show ?thesis
    by (simp add: fetch_failed_def)
qed

text \<open>
  C5. During \<^verbatim>\<open>DELETE /images/:id\<close>, once the record was found: an error of the deletion of
  the object from storage is written to the error console and not surfaced; an error of the
  deletion from \<^verbatim>\<open>images_metadata\<close>, reported or thrown, is written to the error console and not
  surfaced; the answer depends on the deletion of the record alone, 500 with the generic
  message and the description of the error when it fails, \<^verbatim>\<open>{success: true}\<close> with 200 when
  it completes.
\<close>

theorem delete_best_effort:
  assumes fetch: "images_select_url c id' (world s) = (Resolved_data (Some url), w1)"
      and remove: "storage_remove c ''imagens'' [url] w1 = (removed, w2)"
      and resolves: "\<forall>e. removed \<noteq> Rejected e"
      and delete: "images_delete c id' w2 = (deleted, w3)"
      and metadata: "metadata_delete c url w3 = (meta, w4)"
  shows "fst (delete_handler c id' s)
           = (case deleted of
                Resolved_data _ \<Rightarrow> res_json 200 (JObject [(''success'', JBool True)])
              | Resolved_error e \<Rightarrow>
                  res_json 500 (JObject [(''error'', JString ''Erro ao excluir imagem''),
                                         (''details'', JString (message e))])
              | Rejected e \<Rightarrow>
                  res_json 500 (JObject [(''error'', JString ''Erro ao excluir imagem''),
                                         (''details'', JString (message e))]))
         \<and> (\<forall>e. removed = Resolved_error e \<longrightarrow>
               [Text ''Erro ao deletar do storage:'', Err e] \<in> set (stderr (snd (delete_handler c id' s))))
         \<and> (\<forall>e. deleted = Resolved_data () \<and> (meta = Resolved_error e \<or> meta = Rejected e) \<longrightarrow>
               [Text ''Erro ao deletar metadata:'', Err e] \<in> set (stderr (snd (delete_handler c id' s))))"
  using assms
  by (cases removed; cases deleted; cases meta)
     (simp_all add: delete_handler_def delete_try_def ask_def throw_on_error_def console_error_def)

theorem delete_best_effort_witness:
  "images_select_url flaky_client ''7'' (world example_sys) = (Resolved_data (Some ''images/1_cat.jpg''), example_store)
   \<and> storage_remove flaky_client ''imagens'' [''images/1_cat.jpg''] example_store
       = (Resolved_error object_not_found, example_store)
   \<and> (\<forall>e. Resolved_error object_not_found \<noteq> Rejected e)
   \<and> images_delete flaky_client ''7'' example_store
       = (Resolved_data (), example_store\<lparr>images_table := [dog_row, lost_row]\<rparr>)
   \<and> metadata_delete flaky_client ''images/1_cat.jpg'' (example_store\<lparr>images_table := [dog_row, lost_row]\<rparr>)
       = (Rejected fetch_failed, example_store\<lparr>images_table := [dog_row, lost_row]\<rparr>)
   \<and> fst (delete_handler flaky_client ''7'' example_sys) = res_json 200 (JObject [(''success'', JBool True)])
   \<and> [Text ''Erro ao deletar do storage:'', Err object_not_found]
        \<in> set (stderr (snd (delete_handler flaky_client ''7'' example_sys)))
   \<and> [Text ''Erro ao deletar metadata:'', Err fetch_failed]
        \<in> set (stderr (snd (delete_handler flaky_client ''7'' example_sys)))
   \<and> fst (delete_handler readonly_client ''7'' example_sys)
       = res_json 500 (JObject [(''error'', JString ''Erro ao excluir imagem''),
                                (''details'', JString ''TypeError: fetch failed'')])"
proof -
  have key: "key_of_param ''7'' = Some (JNumber 7)"
    by (simp add: key_of_param_def is_digit_def digits_val_def digit_val_def)
  have a: "images_select_url flaky_client ''7'' (world example_sys)
             = (Resolved_data (Some ''images/1_cat.jpg''), example_store)"
    by (simp add: flaky_client_def supabase_def createClient_def ref_images_select_url_def key
        example_sys_def example_store_def cat_row_def dog_row_def lost_row_def)
  have b: "storage_remove flaky_client ''imagens'' [''images/1_cat.jpg''] example_store
             = (Resolved_error object_not_found, example_store)"
    by (simp add: flaky_client_def)
  have c: "\<forall>e. Resolved_error object_not_found \<noteq> Rejected e"
    by simp
  have d: "images_delete flaky_client ''7'' example_store
             = (Resolved_data (), example_store\<lparr>images_table := [dog_row, lost_row]\<rparr>)"
    by (simp add: flaky_client_def supabase_def createClient_def ref_images_delete_def key
        example_store_def cat_row_def dog_row_def lost_row_def)
  have e: "metadata_delete flaky_client ''images/1_cat.jpg'' (example_store\<lparr>images_table := [dog_row, lost_row]\<rparr>)
             = (Rejected fetch_failed, example_store\<lparr>images_table := [dog_row, lost_row]\<rparr>)"
    by (simp add: flaky_client_def)
  have a': "images_select_url readonly_client ''7'' (world example_sys)
             = (Resolved_data (Some ''images/1_cat.jpg''), example_store)"
    by (simp add: readonly_client_def supabase_def createClient_def ref_images_select_url_def key
        example_sys_def example_store_def cat_row_def dog_row_def lost_row_def)
  have removed: "fst (storage_remove readonly_client ''imagens'' [''images/1_cat.jpg''] example_store) = Resolved_data ()"
    by (simp add: readonly_client_def supabase_def createClient_def ref_storage_remove_def)
  then have c': "\<forall>e. fst (storage_remove readonly_client ''imagens'' [''images/1_cat.jpg''] example_store) \<noteq> Rejected e"
    by simp
  have refused: "fst (images_delete readonly_client ''7'' w) = Resolved_error fetch_failed" for w
    by (simp add: readonly_client_def)
  from delete_best_effort [OF a b c d e]
       delete_best_effort [OF a' surjective_pairing c' surjective_pairing surjective_pairing]
       a b d e refused
  show ?thesis
    by (simp add: fetch_failed_def)
qed

subsection \<open>The URL of a profile image\<close>

text \<open>
  C7. For \<^verbatim>\<open>GET /profile-image/:user_id\<close>: an identifier the lookup does not find (the error
  of \<^verbatim>\<open>single()\<close>, code PGRST116) yields 404 with the message that the user was not found; a
  user without a reference (\<^verbatim>\<open>null\<close> or empty) yields 404 with another message, that the
  profile image was not found; a reference that starts with \<^verbatim>\<open>http\<close> is returned as it is;
  any other reference is resolved to the public URL of that key in the bucket
  \<^verbatim>\<open>profiles\<close>.
\<close>

theorem profile_image_outcomes:
  assumes lookup: "users_select_profile c user_id (world s) = (found, w)"
  shows "(\<forall>e. found = Resolved_error e \<and> code e = Some PGRST116 \<longrightarrow>
            fst (profile_image_handler c user_id s)
              = res_json 404 (JObject [(''error'', JString usuario_nao_encontrado)]))
       \<and> (found = Resolved_data None \<or> found = Resolved_data (Some []) \<longrightarrow>
            fst (profile_image_handler c user_id s)
              = res_json 404 (JObject [(''error'', JString imagem_de_perfil_nao_encontrada)]))
       \<and> usuario_nao_encontrado \<noteq> imagem_de_perfil_nao_encontrada
       \<and> (\<forall>u. found = Resolved_data (Some u) \<and> prefix ''http'' u \<longrightarrow>
            fst (profile_image_handler c user_id s) = res_json 200 (JObject [(''profileImageUrl'', JString u)]))
       \<and> (\<forall>u. found = Resolved_data (Some u) \<and> u \<noteq> [] \<and> \<not> prefix ''http'' u \<longrightarrow>
            fst (profile_image_handler c user_id s)
              = res_json 200 (JObject [(''profileImageUrl'', JString (storage_getPublicUrl c ''profiles'' u))]))"
  using lookup
  by (auto simp add: profile_image_handler_def profile_image_try_def ask_def truthy_field_def
        usuario_nao_encontrado_def imagem_de_perfil_nao_encontrada_def)

theorem profile_image_outcomes_witness:
  "users_select_profile supabase ''dave'' (world example_sys) = (Resolved_error not_one_row, example_store)
   \<and> code not_one_row = Some PGRST116
   \<and> fst (profile_image_handler supabase ''dave'' example_sys)
       = res_json 404 (JObject [(''error'', JString usuario_nao_encontrado)])
   \<and> users_select_profile supabase ''carol'' (world example_sys) = (Resolved_data None, example_store)
   \<and> fst (profile_image_handler supabase ''carol'' example_sys)
       = res_json 404 (JObject [(''error'', JString imagem_de_perfil_nao_encontrada)])
   \<and> fst (profile_image_handler supabase ''alice'' example_sys)
       = res_json 200 (JObject [(''profileImageUrl'',
           JString ''https://abc.supabase.co/storage/v1/object/public/profiles/profile_alice.jpg'')])
   \<and> fst (profile_image_handler supabase ''bob'' example_sys)
       = res_json 200 (JObject [(''profileImageUrl'',
           JString ''https://abc.supabase.co/storage/v1/object/public/profiles/profile_bob.jpg'')])"
proof -
  have dave: "users_select_profile supabase ''dave'' (world example_sys) = (Resolved_error not_one_row, example_store)"
    by (simp add: supabase_def createClient_def ref_users_select_profile_def example_sys_def example_store_def
        example_users_def)
  have carol: "users_select_profile supabase ''carol'' (world example_sys) = (Resolved_data None, example_store)"
    by (simp add: supabase_def createClient_def ref_users_select_profile_def example_sys_def example_store_def
        example_users_def)
  have alice: "users_select_profile supabase ''alice'' (world example_sys)
      = (Resolved_data (Some ''https://abc.supabase.co/storage/v1/object/public/profiles/profile_alice.jpg''), example_store)"
    by (simp add: supabase_def createClient_def ref_users_select_profile_def example_sys_def example_store_def
        example_users_def)
  have bob: "users_select_profile supabase ''bob'' (world example_sys)
      = (Resolved_data (Some ''profile_bob.jpg''), example_store)"
    by (simp add: supabase_def createClient_def ref_users_select_profile_def example_sys_def example_store_def
        example_users_def)
  have url: "storage_getPublicUrl supabase ''profiles'' ''profile_bob.jpg''
      = ''https://abc.supabase.co/storage/v1/object/public/profiles/profile_bob.jpg''"
    by (simp add: supabase_def createClient_def ref_getPublicUrl_def)
  have code: "code not_one_row = Some PGRST116"
    by (simp add: not_one_row_def)
  from profile_image_outcomes [OF dave] profile_image_outcomes [OF carol]
       profile_image_outcomes [OF alice] profile_image_outcomes [OF bob] dave carol code url
  show ?thesis
    by simp
qed

subsection \<open>The transient file\<close>

text \<open>
  C1 says that a handler that accepts a file removes the transient file on every way out,
  the rejection with 400 included. Both upload handlers answer a request that has a file
  and no \<^verbatim>\<open>user_id\<close> with 400 and leave the file where multer stored it.
\<close>

theorem upload_without_user_id_keeps_file:
  "files example_sys (path example_file) = Some ''JPEG2''
   \<and> req_file request_without_user_id = Some example_file
   \<and> upload_handler example_parseFloat supabase example_clock request_without_user_id example_sys
       = (res_json 400 (JObject [(''error'', JString user_id_obrigatorio)]), example_sys)
   \<and> upload_profile_handler supabase example_clock request_without_user_id example_sys
       = (res_json 400 (JObject [(''error'', JString user_id_obrigatorio)]), example_sys)"
  by (simp add: upload_handler_def upload_try_def upload_profile_handler_def upload_profile_try_def
      request_without_user_id_def example_file_def example_sys_def truthy_field_def)

subsection \<open>Uploading an image\<close>

lemma upload_catch_result:
  "upload_catch label generic req e s = (r, s') \<Longrightarrow>
     r = res_json 500 (JObject [(''error'', JString generic), (''details'', JString (message e))])
   \<and> world s' = world s \<and> calls s' = calls s
   \<and> (\<forall>f. req_file req = Some f \<longrightarrow> files s' (path f) = None)"
  by (auto simp add: upload_catch_def Let_def console_error_def existsSync_def unlinkSync_def
      split: option.splits if_splits)

lemma upload_ok_try:
  assumes run: "upload_handler parseFloat c clk req s = (r, s')"
      and ok: "status r = 200"
  shows "upload_try parseFloat c clk req s = (Inr r, s')"
proof (cases "upload_try parseFloat c clk req s")
  case (Pair res s1)
  show ?thesis
  proof (cases res)
    case (Inl e)
    with Pair run have "upload_catch ''Erro no upload:'' ''Erro ao fazer upload da imagem'' req e s1 = (r, s')"
      by (simp add: upload_handler_def)
    from upload_catch_result [OF this] ok show ?thesis
      by (simp add: res_json_def)
  next
    case (Inr r')
    with Pair run show ?thesis
      by (simp add: upload_handler_def)
  qed
qed

lemma upload_try_success:
  assumes run: "upload_try parseFloat c clk req s = (Inr r, s')"
      and ok: "status r = 200"
  shows "\<exists>f bytes w1 w2 first rest.
           req_file req = Some f
         \<and> truthy_field (req_body req ''user_id'')
         \<and> files s (path f) = Some bytes
         \<and> storage_upload c ''imagens''
              (''images/'' @ show_nat (date_now clk) @ ''_'' @ name_or_default (originalname f)) bytes
              \<lparr>cacheControl = ''3600'', upsert = False, contentType = mimetype f\<rparr> (world s)
             = (Resolved_data (), w1)
         \<and> images_insert c
              (JArray [JObject [(''user_id'', field_or_null (req_body req ''user_id'')),
                                (''url'', JString (''images/'' @ show_nat (date_now clk) @ ''_''
                                                     @ name_or_default (originalname f))),
                                (''latitude'', parsed_or_null parseFloat (req_body req ''latitude'')),
                                (''longitude'', parsed_or_null parseFloat (req_body req ''longitude'')),
                                (''analysis'', field_or_null (req_body req ''analysis'')),
                                (''created_at'', JString (toISOString clk))]]) w1
             = (Resolved_data (first # rest), w2)
         \<and> sent r = JObject [(''message'', JString ''Upload realizado com sucesso!''),
                             (''imageId'', image_id first),
                             (''imageUrl'', JString (storage_getPublicUrl c ''imagens''
                                 (''images/'' @ show_nat (date_now clk) @ ''_'' @ name_or_default (originalname f)))),
                             (''latitude'', parsed_or_null parseFloat (req_body req ''latitude'')),
                             (''longitude'', parsed_or_null parseFloat (req_body req ''longitude'')),
                             (''analysis'', field_or_null (req_body req ''analysis''))]
         \<and> calls s' = calls s @
              [StorageUpload ''imagens''
                 (''images/'' @ show_nat (date_now clk) @ ''_'' @ name_or_default (originalname f)) bytes
                 \<lparr>cacheControl = ''3600'', upsert = False, contentType = mimetype f\<rparr>,
               ImagesInsert
                 (JArray [JObject [(''user_id'', field_or_null (req_body req ''user_id'')),
                                   (''url'', JString (''images/'' @ show_nat (date_now clk) @ ''_''
                                                        @ name_or_default (originalname f))),
                                   (''latitude'', parsed_or_null parseFloat (req_body req ''latitude'')),
                                   (''longitude'', parsed_or_null parseFloat (req_body req ''longitude'')),
                                   (''analysis'', field_or_null (req_body req ''analysis'')),
                                   (''created_at'', JString (toISOString clk))]])]
         \<and> world s' = w2
         \<and> files s' = (files s)(path f := None)"
  using assms
  by (auto simp add: upload_try_def Let_def ask_def throw_on_error_def res_json_def readFileSync_def
        unlinkSync_def
      split: option.splits if_splits sum.splits prod.splits reply.splits list.splits)

lemma parsed_or_null_cases:
  "parsed_or_null parseFloat v
     = (case v of
          None \<Rightarrow> JNull
        | Some t \<Rightarrow> if t = [] then JNull
                    else (case parseFloat t of Finite q \<Rightarrow> JNumber q | _ \<Rightarrow> JNull))"
proof (cases v)
  case None
  then show ?thesis by (simp add: parsed_or_null_def)
next
  case (Some t)
  then show ?thesis
    by (cases "parseFloat t") (auto simp add: parsed_or_null_def)
qed

lemma field_or_null_cases:
  "field_or_null v = (case v of None \<Rightarrow> JNull | Some t \<Rightarrow> if t = [] then JNull else JString t)"
  by (simp add: field_or_null_def split: option.splits)


lemma example_timestamp: "show_nat 1700000000000 = ''1700000000000''"
  by (simp add: show_nat.simps digit_char_def)

lemma example_latitude: "example_parseFloat ''-23.5'' = Finite (- 47 / 2)"
  by (simp add: example_parseFloat_def)

lemma example_longitude: "example_parseFloat ''abc'' = NaN"
  by (simp add: example_parseFloat_def)

lemma example_upload_try:
  "upload_try example_parseFloat supabase example_clock example_upload example_sys
     = (Inr (res_json 200
               (JObject [(''message'', JString ''Upload realizado com sucesso!''),
                         (''imageId'', JNumber 10),
                         (''imageUrl'', JString ''https://abc.supabase.co/storage/v1/object/public/imagens/images/1700000000000_cat.jpg''),
                         (''latitude'', JNumber (- 47 / 2)),
                         (''longitude'', JNull),
                         (''analysis'', JNull)])),
        \<lparr>world = example_store
           \<lparr>images_table :=
              \<lparr>image_id = JNumber 10, image_url = ''images/1700000000000_cat.jpg'',
               image_user_id = JString ''alice'', image_created_at = JString ''2023-11-14T22:13:20.000Z'',
               image_latitude = JNumber (- 47 / 2), image_longitude = JNull, image_analysis = JNull\<rparr>
              # images_table example_store,
            buckets := (buckets example_store)((''imagens'', ''images/1700000000000_cat.jpg'') \<mapsto> ''JPEG2''),
            serial := 11\<rparr>,
         files = Map.empty,
         calls = [StorageUpload ''imagens'' ''images/1700000000000_cat.jpg'' ''JPEG2''
                    \<lparr>cacheControl = ''3600'', upsert = False, contentType = ''image/jpeg''\<rparr>,
                  ImagesInsert
                    (JArray [JObject [(''user_id'', JString ''alice''),
                                      (''url'', JString ''images/1700000000000_cat.jpg''),
                                      (''latitude'', JNumber (- 47 / 2)),
                                      (''longitude'', JNull),
                                      (''analysis'', JNull),
                                      (''created_at'', JString ''2023-11-14T22:13:20.000Z'')]])],
         stderr = []\<rparr>)"
  by (simp add: upload_try_def Let_def ask_def throw_on_error_def readFileSync_def unlinkSync_def
      example_upload_def example_file_def example_sys_def example_clock_def example_store_def
      supabase_def createClient_def ref_storage_upload_def ref_images_insert_def ref_getPublicUrl_def
      text_column_def column_def truthy_field_def field_or_null_def parsed_or_null_def name_or_default_def
      example_timestamp example_latitude example_longitude)

lemma example_upload_run:
  "upload_handler example_parseFloat supabase example_clock example_upload example_sys
     = (case upload_try example_parseFloat supabase example_clock example_upload example_sys of (Inr r, s) \<Rightarrow> (r, s))"
  by (simp add: upload_handler_def example_upload_try)



text \<open>
  C2. For every successful \<^verbatim>\<open>POST /upload\<close>, and whatever \<^verbatim>\<open>parseFloat\<close> returns: the
  record that is inserted and the response carry, for latitude and for longitude, the number
  \<^verbatim>\<open>parseFloat\<close> returns for the field, and \<^verbatim>\<open>null\<close> when the field is absent or empty or
  when \<^verbatim>\<open>parseFloat\<close> returns no finite number for it (\<^verbatim>\<open>NaN\<close>, its answer to a string
  it cannot parse, is sent as \<^verbatim>\<open>null\<close>, and so is an infinity); the analysis is the string
  of the field, or \<^verbatim>\<open>null\<close> when it is absent or empty; and \<^verbatim>\<open>imageId\<close> is the id of the
  record the insertion returned.
\<close>

theorem upload_record_roundtrip:
  assumes run: "upload_handler parseFloat c clk req s = (r, s')"
      and ok: "status r = 200"
  shows "\<exists>up row w1 first rest lat lon an.
           lat = (case req_body req ''latitude'' of
                    None \<Rightarrow> JNull
                  | Some t \<Rightarrow> if t = [] then JNull
                              else (case parseFloat t of Finite q \<Rightarrow> JNumber q | _ \<Rightarrow> JNull))
         \<and> lon = (case req_body req ''longitude'' of
                    None \<Rightarrow> JNull
                  | Some t \<Rightarrow> if t = [] then JNull
                              else (case parseFloat t of Finite q \<Rightarrow> JNumber q | _ \<Rightarrow> JNull))
         \<and> an = (case req_body req ''analysis'' of
                   None \<Rightarrow> JNull
                 | Some t \<Rightarrow> if t = [] then JNull else JString t)
         \<and> calls s' = calls s @ [up, ImagesInsert (JArray [JObject row])]
         \<and> map_of row ''latitude'' = Some lat
         \<and> map_of row ''longitude'' = Some lon
         \<and> map_of row ''analysis'' = Some an
         \<and> images_insert c (JArray [JObject row]) w1 = (Resolved_data (first # rest), world s')
         \<and> field (sent r) ''imageId'' = Some (image_id first)
         \<and> field (sent r) ''latitude'' = Some lat
         \<and> field (sent r) ''longitude'' = Some lon
         \<and> field (sent r) ''analysis'' = Some an"
proof -
  from upload_try_success [OF upload_ok_try [OF run ok] ok]
  show ?thesis
    unfolding parsed_or_null_cases field_or_null_cases
    by (elim exE conjE, intro exI conjI) (simp_all add: field_def)
qed

theorem upload_record_roundtrip_witness:
  "status (fst (upload_handler example_parseFloat supabase example_clock example_upload example_sys)) = 200
   \<and> req_body example_upload ''latitude'' = Some ''-23.5'' \<and> example_parseFloat ''-23.5'' = Finite (- 47 / 2)
   \<and> req_body example_upload ''longitude'' = Some ''abc'' \<and> example_parseFloat ''abc'' = NaN
   \<and> req_body example_upload ''analysis'' = Some []
   \<and> (\<exists>up row. calls (snd (upload_handler example_parseFloat supabase example_clock example_upload example_sys))
                   = [up, ImagesInsert (JArray [JObject row])]
        \<and> map_of row ''latitude'' = Some (JNumber (- 47 / 2))
        \<and> map_of row ''longitude'' = Some JNull
        \<and> map_of row ''analysis'' = Some JNull)
   \<and> field (sent (fst (upload_handler example_parseFloat supabase example_clock example_upload example_sys))) ''latitude''
       = Some (JNumber (- 47 / 2))
   \<and> field (sent (fst (upload_handler example_parseFloat supabase example_clock example_upload example_sys))) ''longitude''
       = Some JNull
   \<and> field (sent (fst (upload_handler example_parseFloat supabase example_clock example_upload example_sys))) ''analysis''
       = Some JNull
   \<and> field (sent (fst (upload_handler example_parseFloat supabase example_clock example_upload example_sys))) ''imageId''
       = Some (JNumber 10)
   \<and> [row \<leftarrow> images_table (world (snd (upload_handler example_parseFloat supabase example_clock example_upload example_sys))).
         image_id row = JNumber 10]
       = [\<lparr>image_id = JNumber 10, image_url = ''images/1700000000000_cat.jpg'',
           image_user_id = JString ''alice'', image_created_at = JString ''2023-11-14T22:13:20.000Z'',
           image_latitude = JNumber (- 47 / 2), image_longitude = JNull, image_analysis = JNull\<rparr>]"
proof -
  have ok: "status (fst (upload_handler example_parseFloat supabase example_clock example_upload example_sys)) = 200"
    by (simp add: example_upload_run example_upload_try res_json_def)
  have fields: "req_body example_upload ''latitude'' = Some ''-23.5''"
    "req_body example_upload ''longitude'' = Some ''abc''"
    "req_body example_upload ''analysis'' = Some []"
    by (simp_all add: example_upload_def)
  have stored: "[row \<leftarrow> images_table (world (snd (upload_handler example_parseFloat supabase example_clock example_upload example_sys))).
         image_id row = JNumber 10]
       = [\<lparr>image_id = JNumber 10, image_url = ''images/1700000000000_cat.jpg'',
           image_user_id = JString ''alice'', image_created_at = JString ''2023-11-14T22:13:20.000Z'',
           image_latitude = JNumber (- 47 / 2), image_longitude = JNull, image_analysis = JNull\<rparr>]"
    by (simp add: example_upload_run example_upload_try example_store_def cat_row_def dog_row_def lost_row_def)
  have id: "field (sent (fst (upload_handler example_parseFloat supabase example_clock example_upload example_sys))) ''imageId''
       = Some (JNumber 10)"
    by (simp add: example_upload_run example_upload_try res_json_def field_def)
  from upload_record_roundtrip [OF prod.collapse [symmetric] ok] ok fields stored id
  show ?thesis
    by (auto simp add: example_latitude example_longitude example_sys_def)
qed

subsection \<open>Uploading a profile image\<close>


















end
